theory Spec2Isabelle
  imports Main "HOL-Library.Stream"
begin

section \<open>Wardrobe outfit maker: data model\<close>

text \<open>
  The development embeds \<^verbatim>\<open>src/outfit_maker.py\<close>: the class \<^verbatim>\<open>OutfitGenerator\<close>
  (the rule predicates and \<^verbatim>\<open>generate_outfit\<close>) and the two methods of
  \<^verbatim>\<open>OutfitMakerApp\<close> that call it (\<^verbatim>\<open>generate_outfit\<close> and
  \<^verbatim>\<open>open_change_item_dialog\<close> with its inner \<^verbatim>\<open>select_item\<close>).

  A clothing item is the dictionary built by \<^verbatim>\<open>WardrobeDatabase.get_all_items\<close>: it always
  carries the six keys below, so it is a record, it is never the empty dictionary (it is
  truthy), and the tests \<^verbatim>\<open>'formality' in item\<close> and \<^verbatim>\<open>'pattern' in item\<close> are true.
  The key \<^verbatim>\<open>id\<close> is the field \<open>item_id\<close>.
\<close>

record item =
  item_id :: int
  category :: string
  color :: string
  pattern :: string
  formality :: string
  image_path :: string

text \<open>
  The outfit dictionary created at the head of every attempt (lines 346-353). Its keys
  \<^verbatim>\<open>top\<close>, \<^verbatim>\<open>bottom\<close>, \<^verbatim>\<open>dress\<close>, \<^verbatim>\<open>outerwear\<close>, \<^verbatim>\<open>accessories\<close>, \<^verbatim>\<open>shoes\<close> are the
  fields below (suffixed, since \<open>top\<close> is a constant of HOL); \<^verbatim>\<open>None\<close> is \<open>None\<close>.
\<close>

record outfit =
  top_slot :: "item option"
  bottom_slot :: "item option"
  dress_slot :: "item option"
  outerwear_slot :: "item option"
  accessories_slot :: "item list"
  shoes_slot :: "item option"

definition new_outfit :: outfit where
  "new_outfit = \<lparr>top_slot = None, bottom_slot = None, dress_slot = None,
     outerwear_slot = None, accessories_slot = [], shoes_slot = None\<rparr>"

text \<open>
  \<^verbatim>\<open>self.categories\<close>: a dictionary with exactly the six keys \<^verbatim>\<open>Top\<close>, \<^verbatim>\<open>Bottom\<close>,
  \<^verbatim>\<open>Dress\<close>, \<^verbatim>\<open>Outerwear\<close>, \<^verbatim>\<open>Accessory\<close>, \<^verbatim>\<open>Shoes\<close>, filled by the constructor
  (lines 210-222) in catalog order; an item of any other category is left out.
\<close>

record categories =
  cat_Top :: "item list"
  cat_Bottom :: "item list"
  cat_Dress :: "item list"
  cat_Outerwear :: "item list"
  cat_Accessory :: "item list"
  cat_Shoes :: "item list"

definition empty_categories :: categories where
  "empty_categories = \<lparr>cat_Top = [], cat_Bottom = [], cat_Dress = [],
     cat_Outerwear = [], cat_Accessory = [], cat_Shoes = []\<rparr>"

definition add_to_categories :: "categories \<Rightarrow> item \<Rightarrow> categories" where
  "add_to_categories c i =
     (if category i = ''Top'' then c\<lparr>cat_Top := cat_Top c @ [i]\<rparr>
      else if category i = ''Bottom'' then c\<lparr>cat_Bottom := cat_Bottom c @ [i]\<rparr>
      else if category i = ''Dress'' then c\<lparr>cat_Dress := cat_Dress c @ [i]\<rparr>
      else if category i = ''Outerwear'' then c\<lparr>cat_Outerwear := cat_Outerwear c @ [i]\<rparr>
      else if category i = ''Accessory'' then c\<lparr>cat_Accessory := cat_Accessory c @ [i]\<rparr>
      else if category i = ''Shoes'' then c\<lparr>cat_Shoes := cat_Shoes c @ [i]\<rparr>
      else c)"

definition OutfitGenerator :: "item list \<Rightarrow> categories" where
  "OutfitGenerator clothing_items = foldl add_to_categories empty_categories clothing_items"

subsection \<open>Strings and tables\<close>

text \<open>
  \<^verbatim>\<open>str.lower()\<close> on ASCII text: the letters A to Z are mapped to a to z and every other
  character is kept. Colors, patterns and formalities are taken to be ASCII strings.
\<close>

definition char_lower :: "char \<Rightarrow> char" where
  "char_lower c =
     (case map_of (zip ''ABCDEFGHIJKLMNOPQRSTUVWXYZ'' ''abcdefghijklmnopqrstuvwxyz'') c of
        Some l \<Rightarrow> l
      | None \<Rightarrow> c)"

definition lower :: "string \<Rightarrow> string" where
  "lower s = map char_lower s"

definition formality_levels :: "(string \<times> int) list" where
  "formality_levels =
     [(''casual'', 1), (''smart casual'', 2), (''semi-formal'', 3), (''formal'', 4)]"

definition occasion_formality_map :: "(string \<times> int) list" where
  "occasion_formality_map =
     [(''Any'', 0), (''Casual Day Out'', 1), (''Work/Office'', 2), (''Date Night'', 2),
      (''Party'', 3), (''Formal Event'', 4)]"

definition clashing_colors :: "(string \<times> string list) list" where
  "clashing_colors =
     [(''red'', [''orange'', ''pink'', ''green'']),
      (''orange'', [''red'', ''purple'', ''blue'']),
      (''yellow'', [''purple'', ''brown'']),
      (''green'', [''red'', ''purple'', ''brown'']),
      (''blue'', [''orange'']),
      (''purple'', [''yellow'', ''green'', ''orange'']),
      (''pink'', [''red'', ''brown'']),
      (''brown'', [''yellow'', ''green'', ''pink'']),
      (''black'', []), (''white'', []), (''grey'', []), (''beige'', []), (''navy'', [])]"

definition neutral_colors :: "string list" where
  "neutral_colors = [''black'', ''white'', ''grey'', ''beige'', ''navy'']"

text \<open>\<^verbatim>\<open>d.get(key, 0)\<close> on a dictionary given as an association list.\<close>

definition get_or_zero :: "(string \<times> int) list \<Rightarrow> string \<Rightarrow> int" where
  "get_or_zero d k = (case map_of d k of Some v \<Rightarrow> v | None \<Rightarrow> 0)"

text \<open>
  \<^verbatim>\<open>c1 in self.clashing_colors and c2 in self.clashing_colors[c1]\<close> (lines 280 and 282).
\<close>

definition in_clash_list :: "string \<Rightarrow> string \<Rightarrow> bool" where
  "in_clash_list c1 c2 =
     (case map_of clashing_colors c1 of Some l \<Rightarrow> c2 \<in> set l | None \<Rightarrow> False)"

subsection \<open>The rule predicates of \<^verbatim>\<open>OutfitGenerator\<close>\<close>

text \<open>\<^verbatim>\<open>_do_colors_clash\<close>, lines 263-284.\<close>

definition do_colors_clash :: "string \<Rightarrow> string \<Rightarrow> bool" where
  "do_colors_clash color1 color2 =
     (if color1 = [] \<or> color2 = [] then False
      else if lower color1 \<in> set neutral_colors \<or> lower color2 \<in> set neutral_colors then False
      else if in_clash_list (lower color1) (lower color2) then True
      else if in_clash_list (lower color2) (lower color1) then True
      else False)"

text \<open>
  \<^verbatim>\<open>_do_formalities_match\<close>, lines 286-300. Either argument may be \<^verbatim>\<open>None\<close>; the callers
  leave \<open>tolerance\<close> at its default 1.
\<close>

definition formality_rank :: "item \<Rightarrow> int" where
  "formality_rank i = get_or_zero formality_levels (lower (formality i))"

definition do_formalities_match :: "item option \<Rightarrow> item option \<Rightarrow> int \<Rightarrow> bool" where
  "do_formalities_match item1 item2 tolerance =
     (case (item1, item2) of
        (Some i1, Some i2) \<Rightarrow> \<bar>formality_rank i1 - formality_rank i2\<bar> \<le> tolerance
      | _ \<Rightarrow> True)"

text \<open>\<^verbatim>\<open>_is_item_suitable_for_occasion\<close>, lines 302-313.\<close>

definition is_item_suitable_for_occasion :: "item \<Rightarrow> int \<Rightarrow> bool" where
  "is_item_suitable_for_occasion i occasion_formality_level =
     (if occasion_formality_level = 0 then True
      else \<bar>formality_rank i - occasion_formality_level\<bar> \<le> 1)"

text \<open>\<^verbatim>\<open>_do_patterns_match\<close>, lines 316-328: the counting loop, then the comparison.\<close>

definition patterned_items_count :: "item list \<Rightarrow> nat" where
  "patterned_items_count selected_items =
     foldl (\<lambda>n i. if lower (pattern i) \<noteq> ''solid'' then n + 1 else n) 0 selected_items"

definition do_patterns_match :: "item list \<Rightarrow> bool" where
  "do_patterns_match selected_items = (patterned_items_count selected_items \<le> 1)"

section \<open>The outfit assembler: \<^verbatim>\<open>OutfitGenerator.generate_outfit\<close>\<close>

subsection \<open>Randomness\<close>

text \<open>
  The module \<^verbatim>\<open>random\<close> is an explicit source: an infinite stream of natural numbers, read
  from its head and passed on. Every outcome of a draw is the value of some stream, so a
  statement for all streams is a statement for all runs.
  \<^item> \<^verbatim>\<open>_get_random_element\<close> (lines 257-261) returns \<^verbatim>\<open>None\<close> on an empty list without a
    draw, and otherwise \<^verbatim>\<open>random.choice(arr)\<close>, an element at an index below the length;
  \<^item> \<^verbatim>\<open>random.random() < 0.3\<close> is a draw that decides a boolean;
  \<^item> \<^verbatim>\<open>random.randint(0, k)\<close> is a draw reduced to \<open>0..k\<close>, both ends included.
\<close>

type_synonym rng = "nat stream"

definition get_random_element :: "'a list \<Rightarrow> rng \<Rightarrow> 'a option \<times> rng" where
  "get_random_element arr r =
     (if arr = [] then (None, r)
      else (Some (arr ! (shd r mod length arr)), stl r))"

definition random_below_03 :: "rng \<Rightarrow> bool \<times> rng" where
  "random_below_03 r = (shd r mod 10 < 3, stl r)"

definition randint0 :: "nat \<Rightarrow> rng \<Rightarrow> nat \<times> rng" where
  "randint0 k r = (shd r mod (k + 1), stl r)"

subsection \<open>One attempt\<close>

text \<open>
  The two locals an attempt builds up: the \<^verbatim>\<open>outfit\<close> dictionary and the list
  \<^verbatim>\<open>selected_items_for_rules\<close>.
\<close>

record selection =
  outfit :: outfit
  selected_items_for_rules :: "item list"

text \<open>
  Lines 365-387, the choice of a dress or of a top and a bottom. The result \<open>None\<close> is the
  statement \<^verbatim>\<open>continue\<close> (lines 380 and 384).
\<close>

definition select_anchor ::
  "item list \<Rightarrow> item list \<Rightarrow> item list \<Rightarrow> rng \<Rightarrow> selection option \<times> rng" where
  "select_anchor available_tops available_bottoms available_dresses r =
     (let (try_dress, r1) =
            (if available_dresses \<noteq> [] then
               (if available_tops = [] then (True, r) else random_below_03 r)
             else (False, r));
          (dress, r2) =
            (if try_dress then get_random_element available_dresses r1 else (None, r1));
          o1 = new_outfit\<lparr>dress_slot := dress\<rparr>;
          (sel1, use_dress) = (case dress of Some d \<Rightarrow> ([d], True) | None \<Rightarrow> ([], False))
      in if \<not> use_dress then
           (let (top, r3) = get_random_element available_tops r2;
                (bottom, r4) = get_random_element available_bottoms r3;
                o2 = o1\<lparr>top_slot := top, bottom_slot := bottom\<rparr>
            in (case (top, bottom) of
                  (Some t, Some b) \<Rightarrow>
                    if \<not> do_formalities_match top bottom 1 \<or> do_colors_clash (color t) (color b)
                    then (None, r4)
                    else (Some \<lparr>outfit = o2, selected_items_for_rules = sel1 @ [t, b]\<rparr>, r4)
                | _ \<Rightarrow>
                    if dress_slot o2 = None then (None, r4)
                    else (Some \<lparr>outfit = o2, selected_items_for_rules = sel1\<rparr>, r4)))
         else (Some \<lparr>outfit = o1\<lparr>top_slot := None, bottom_slot := None\<rparr>,
                      selected_items_for_rules = sel1\<rparr>, r2))"

text \<open>
  Lines 392-399, the optional outerwear. The pool is not empty where the element is drawn,
  so the draw is never \<^verbatim>\<open>None\<close> (lemma \<open>get_random_element_nonempty\<close>); that branch is
  written down and never taken.
\<close>

definition select_outerwear :: "item list \<Rightarrow> selection \<Rightarrow> rng \<Rightarrow> selection \<times> rng" where
  "select_outerwear available_outerwear s r =
     (if available_outerwear \<noteq> [] then
        (let (potential_outerwear, r1) = get_random_element available_outerwear r;
             base_item = (if dress_slot (outfit s) \<noteq> None then dress_slot (outfit s)
                          else top_slot (outfit s))
         in (case (base_item, potential_outerwear) of
               (Some b, Some p) \<Rightarrow>
                 if do_formalities_match base_item potential_outerwear 1
                    \<and> \<not> do_colors_clash (color b) (color p)
                 then (s\<lparr>outfit := (outfit s)\<lparr>outerwear_slot := potential_outerwear\<rparr>,
                         selected_items_for_rules := selected_items_for_rules s @ [p]\<rparr>, r1)
                 else (s, r1)
             | _ \<Rightarrow> (s, r1)))
      else (s, r))"

text \<open>
  Lines 401-409, the optional shoes; the base is the dress, else
  \<^verbatim>\<open>outfit['bottom'] or outfit['top']\<close>.
\<close>

definition select_shoes :: "item list \<Rightarrow> selection \<Rightarrow> rng \<Rightarrow> selection \<times> rng" where
  "select_shoes available_shoes s r =
     (if available_shoes \<noteq> [] then
        (let (potential_shoes, r1) = get_random_element available_shoes r;
             base_item_for_shoes =
               (if dress_slot (outfit s) \<noteq> None then dress_slot (outfit s)
                else if bottom_slot (outfit s) \<noteq> None then bottom_slot (outfit s)
                else top_slot (outfit s))
         in (case (base_item_for_shoes, potential_shoes) of
               (Some b, Some p) \<Rightarrow>
                 if do_formalities_match base_item_for_shoes potential_shoes 1
                    \<and> \<not> do_colors_clash (color b) (color p)
                 then (s\<lparr>outfit := (outfit s)\<lparr>shoes_slot := potential_shoes\<rparr>,
                         selected_items_for_rules := selected_items_for_rules s @ [p]\<rparr>, r1)
                 else (s, r1)
             | _ \<Rightarrow> (s, r1)))
      else (s, r))"

text \<open>
  Lines 416-424, the body of the accessory loop, on the selection, the set
  \<^verbatim>\<open>selected_accessory_ids\<close> and the random source.
\<close>

definition accessory_step ::
  "item list \<Rightarrow> selection \<times> int set \<times> rng \<Rightarrow> selection \<times> int set \<times> rng" where
  "accessory_step available_accessories st =
     (case st of (s, selected_accessory_ids, r) \<Rightarrow>
        (let (accessory, r1) = get_random_element available_accessories r
         in (case accessory of
               None \<Rightarrow> (s, selected_accessory_ids, r1)
             | Some a \<Rightarrow>
                 if item_id a \<notin> selected_accessory_ids then
                   (let base_item_for_acc =
                          (if dress_slot (outfit s) \<noteq> None then dress_slot (outfit s)
                           else top_slot (outfit s))
                    in (case base_item_for_acc of
                          None \<Rightarrow> (s, selected_accessory_ids, r1)
                        | Some b \<Rightarrow>
                            if do_formalities_match base_item_for_acc accessory 1
                               \<and> \<not> do_colors_clash (color b) (color a)
                            then (s\<lparr>outfit := (outfit s)\<lparr>accessories_slot :=
                                       accessories_slot (outfit s) @ [a]\<rparr>,
                                     selected_items_for_rules :=
                                       selected_items_for_rules s @ [a]\<rparr>,
                                  insert (item_id a) selected_accessory_ids, r1)
                            else (s, selected_accessory_ids, r1)))
                 else (s, selected_accessory_ids, r1))))"

text \<open>\<^verbatim>\<open>for _ in range(num_accessories)\<close>.\<close>

primrec accessory_loop ::
  "nat \<Rightarrow> item list \<Rightarrow> selection \<times> int set \<times> rng \<Rightarrow> selection \<times> int set \<times> rng" where
  "accessory_loop 0 available_accessories st = st"
| "accessory_loop (Suc n) available_accessories st =
     accessory_loop n available_accessories (accessory_step available_accessories st)"

text \<open>Lines 412-424, the optional accessories.\<close>

definition select_accessories :: "item list \<Rightarrow> selection \<Rightarrow> rng \<Rightarrow> selection \<times> rng" where
  "select_accessories available_accessories s r =
     (if available_accessories \<noteq> [] then
        (let (num_accessories, r1) = randint0 (min (length available_accessories) 3) r
         in (case accessory_loop num_accessories available_accessories (s, {}, r1) of
               (s', _, r') \<Rightarrow> (s', r')))
      else (s, r))"

text \<open>
  How the body of the \<^verbatim>\<open>while\<close> loop ends: with \<^verbatim>\<open>continue\<close> (or by falling through to
  the next iteration after a failed pattern check), or with a \<^verbatim>\<open>return\<close>.
\<close>

datatype attempt_result = Continue | Return "outfit option"

text \<open>Lines 346-428, the body of the loop.\<close>

definition attempt :: "categories \<Rightarrow> int \<Rightarrow> rng \<Rightarrow> attempt_result \<times> rng" where
  "attempt cats occasion_formal_level r =
     (let suitable = (\<lambda>i. is_item_suitable_for_occasion i occasion_formal_level);
          available_tops = filter suitable (cat_Top cats);
          available_bottoms = filter suitable (cat_Bottom cats);
          available_dresses = filter suitable (cat_Dress cats);
          available_outerwear = filter suitable (cat_Outerwear cats);
          available_shoes = filter suitable (cat_Shoes cats);
          available_accessories = filter suitable (cat_Accessory cats)
      in (case select_anchor available_tops available_bottoms available_dresses r of
            (None, r1) \<Rightarrow> (Continue, r1)
          | (Some s1, r1) \<Rightarrow>
              if selected_items_for_rules s1 = [] then (Return None, r1)
              else
                (let (s2, r2) = select_outerwear available_outerwear s1 r1;
                     (s3, r3) = select_shoes available_shoes s2 r2;
                     (s4, r4) = select_accessories available_accessories s3 r3
                 in if do_patterns_match (selected_items_for_rules s4)
                    then (Return (Some (outfit s4)), r4)
                    else (Continue, r4))))"

subsection \<open>The attempt loop\<close>

definition max_attempts :: nat where
  "max_attempts = 1000"

text \<open>
  Lines 341-430, \<^verbatim>\<open>while attempts < max_attempts\<close>. The result is the returned value
  together with the value of the counter \<^verbatim>\<open>attempts\<close> at the return, that is the number
  of attempts spent.
\<close>

function generate_loop :: "categories \<Rightarrow> int \<Rightarrow> nat \<Rightarrow> rng \<Rightarrow> outfit option \<times> nat" where
  "generate_loop cats occasion_formal_level attempts r =
     (if attempts < max_attempts then
        (case attempt cats occasion_formal_level r of
           (Return res, r') \<Rightarrow> (res, Suc attempts)
         | (Continue, r') \<Rightarrow> generate_loop cats occasion_formal_level (Suc attempts) r')
      else (None, attempts))"
  by pat_completeness auto
termination
  by (relation "measure (\<lambda>(cats, lvl, attempts, r). max_attempts - attempts)") auto

text \<open>\<^verbatim>\<open>OutfitGenerator.generate_outfit\<close>, lines 330-430.\<close>

definition generate_outfit :: "categories \<Rightarrow> string \<Rightarrow> rng \<Rightarrow> outfit option \<times> nat" where
  "generate_outfit cats occasion_type r =
     generate_loop cats (get_or_zero occasion_formality_map occasion_type) 0 r"

text \<open>
  \<^verbatim>\<open>OutfitMakerApp.generate_outfit\<close>, lines 760-781: the entry point that receives the
  catalog \<^verbatim>\<open>self.clothing_items\<close> and the occasion label. The result is the new value of
  \<^verbatim>\<open>self.generated_outfit\<close> (\<^verbatim>\<open>clear_outfit_display\<close> sets it to \<^verbatim>\<open>None\<close>) and the number
  of attempts spent; with an empty catalog no generator is built and no attempt is made.
\<close>

definition app_generate_outfit :: "item list \<Rightarrow> string \<Rightarrow> rng \<Rightarrow> outfit option \<times> nat" where
  "app_generate_outfit clothing_items selected_occasion r =
     (if clothing_items = [] then (None, 0)
      else generate_outfit (OutfitGenerator clothing_items) selected_occasion r)"

section \<open>Substitution: \<^verbatim>\<open>OutfitMakerApp.open_change_item_dialog\<close>\<close>

text \<open>
  The argument \<^verbatim>\<open>item_type_to_change\<close> is a key of \<^verbatim>\<open>outfit_positions\<close> (lines 579-586):
  one of the five single-item slots, or \<^verbatim>\<open>accessories\<close>, which the code treats apart
  (\<^verbatim>\<open>item_type_to_change != 'accessories'\<close>). The current outfit is a dictionary with the
  six keys of \<open>outfit\<close>, as \<^verbatim>\<open>generate_outfit\<close> returns it.
\<close>

datatype main_slot = Slot_top | Slot_bottom | Slot_dress | Slot_outerwear | Slot_shoes

datatype slot = Main main_slot | Accessories

fun slot_name :: "slot \<Rightarrow> string" where
  "slot_name (Main Slot_top) = ''top''"
| "slot_name (Main Slot_bottom) = ''bottom''"
| "slot_name (Main Slot_dress) = ''dress''"
| "slot_name (Main Slot_outerwear) = ''outerwear''"
| "slot_name (Main Slot_shoes) = ''shoes''"
| "slot_name Accessories = ''accessories''"

text \<open>The values the category of a stored item can take (the combobox of line 487).\<close>

definition category_values :: "string list" where
  "category_values = [''Top'', ''Bottom'', ''Dress'', ''Outerwear'', ''Accessory'', ''Shoes'']"

text \<open>\<^verbatim>\<open>outfit[slot] = value\<close> for a single-item slot.\<close>

fun assign_slot :: "outfit \<Rightarrow> main_slot \<Rightarrow> item option \<Rightarrow> outfit" where
  "assign_slot out Slot_top v = out\<lparr>top_slot := v\<rparr>"
| "assign_slot out Slot_bottom v = out\<lparr>bottom_slot := v\<rparr>"
| "assign_slot out Slot_dress v = out\<lparr>dress_slot := v\<rparr>"
| "assign_slot out Slot_outerwear v = out\<lparr>outerwear_slot := v\<rparr>"
| "assign_slot out Slot_shoes v = out\<lparr>shoes_slot := v\<rparr>"

text \<open>
  Lines 1077-1081: the candidate is skipped unless its category is the slot name, both
  lower-cased, or the slot is \<^verbatim>\<open>accessories\<close> and the category is \<^verbatim>\<open>accessory\<close>.
\<close>

definition category_matches :: "string \<Rightarrow> item \<Rightarrow> bool" where
  "category_matches item_type_to_change i =
     (if lower (category i) \<noteq> lower item_type_to_change then
        (if lower item_type_to_change = ''accessories'' \<and> lower (category i) = ''accessory''
         then True else False)
      else True)"

text \<open>Lines 1089-1094, \<^verbatim>\<open>current_outfit_copy\<close> with the candidate written into the slot.\<close>

fun current_outfit_copy :: "outfit \<Rightarrow> slot \<Rightarrow> item \<Rightarrow> outfit" where
  "current_outfit_copy generated_outfit (Main m) i = assign_slot generated_outfit m (Some i)"
| "current_outfit_copy generated_outfit Accessories i = generated_outfit\<lparr>accessories_slot := [i]\<rparr>"

text \<open>Lines 1096-1102, the items of an outfit in the order top, bottom, dress, outerwear,
  shoes, accessories.\<close>

fun present :: "item option \<Rightarrow> item list" where
  "present None = []"
| "present (Some i) = [i]"

definition proposed_outfit_items :: "outfit \<Rightarrow> item list" where
  "proposed_outfit_items out =
     present (top_slot out) @ present (bottom_slot out) @ present (dress_slot out)
     @ present (outerwear_slot out) @ present (shoes_slot out) @ accessories_slot out"

text \<open>
  Lines 1104-1116, the two nested loops over the pairs \<open>i < j\<close>; each returns the value of
  \<^verbatim>\<open>is_compatible\<close> at its end, \<open>False\<close> after a \<^verbatim>\<open>break\<close>.
\<close>

fun inner_pair_loop :: "item \<Rightarrow> item list \<Rightarrow> bool" where
  "inner_pair_loop item1 [] = True"
| "inner_pair_loop item1 (item2 # rest) =
     (if do_colors_clash (color item1) (color item2) then False
      else if \<not> do_formalities_match (Some item1) (Some item2) 1 then False
      else inner_pair_loop item1 rest)"

fun outer_pair_loop :: "item list \<Rightarrow> bool" where
  "outer_pair_loop [] = True"
| "outer_pair_loop (item1 # rest) =
     (if \<not> inner_pair_loop item1 rest then False else outer_pair_loop rest)"

text \<open>
  Lines 1075-1125, the body of the loop over the catalog: \<open>True\<close> when the item is appended
  to \<^verbatim>\<open>compatible_items\<close>.
\<close>

definition is_compatible_candidate :: "outfit \<Rightarrow> slot \<Rightarrow> int \<Rightarrow> item \<Rightarrow> bool" where
  "is_compatible_candidate generated_outfit item_type_to_change current_occasion_formal_level i =
     (if \<not> category_matches (slot_name item_type_to_change) i then False
      else if \<not> is_item_suitable_for_occasion i current_occasion_formal_level then False
      else
        (let proposed = proposed_outfit_items
                          (current_outfit_copy generated_outfit item_type_to_change i)
         in if \<not> outer_pair_loop proposed then False
            else if \<not> do_patterns_match proposed then False
            else True))"

definition compatible_items :: "item list \<Rightarrow> string \<Rightarrow> outfit \<Rightarrow> slot \<Rightarrow> item list" where
  "compatible_items clothing_items occasion generated_outfit item_type_to_change =
     filter (is_compatible_candidate generated_outfit item_type_to_change
               (get_or_zero occasion_formality_map occasion)) clothing_items"

text \<open>
  \<^verbatim>\<open>select_item\<close>, lines 1133-1156. \<open>selected_id\<close> is the focused row of the tree, \<open>None\<close>
  when no row is focused; the rows are the ids of the compatible items. The result is
  the new value of \<^verbatim>\<open>self.generated_outfit\<close>.
\<close>

definition select_item :: "outfit \<Rightarrow> slot \<Rightarrow> item list \<Rightarrow> int option \<Rightarrow> outfit" where
  "select_item generated_outfit item_type_to_change compatible selected_id =
     (case selected_id of
        None \<Rightarrow> generated_outfit
      | Some sid \<Rightarrow>
          (case find (\<lambda>i. item_id i = sid) compatible of
             None \<Rightarrow> generated_outfit
           | Some selected_item \<Rightarrow>
               (case item_type_to_change of
                  Main m \<Rightarrow>
                    assign_slot
                      (if m = Slot_dress
                       then generated_outfit\<lparr>top_slot := None, bottom_slot := None\<rparr>
                       else if dress_slot generated_outfit \<noteq> None \<and> (m = Slot_top \<or> m = Slot_bottom)
                       then generated_outfit\<lparr>dress_slot := None\<rparr>
                       else generated_outfit)
                      m (Some selected_item)
                | Accessories \<Rightarrow> generated_outfit\<lparr>accessories_slot := [selected_item]\<rparr>)))"

text \<open>The dialog as a whole: the candidates are computed, then one may be applied.\<close>

definition open_change_item_dialog ::
  "item list \<Rightarrow> string \<Rightarrow> outfit \<Rightarrow> slot \<Rightarrow> int option \<Rightarrow> outfit" where
  "open_change_item_dialog clothing_items occasion generated_outfit item_type_to_change selected_id =
     select_item generated_outfit item_type_to_change
       (compatible_items clothing_items occasion generated_outfit item_type_to_change) selected_id"

section \<open>Invariants used in the proofs\<close>

text \<open>
  What the anchor selection establishes on the outfit: a dress excludes top and bottom,
  there is a dress or both a top and a bottom, and a top with a bottom match in formality
  and do not clash.
\<close>

definition anchor_ok :: "outfit \<Rightarrow> bool" where
  "anchor_ok out \<longleftrightarrow>
     (dress_slot out \<noteq> None \<longrightarrow> top_slot out = None \<and> bottom_slot out = None)
   \<and> (dress_slot out \<noteq> None \<or> (top_slot out \<noteq> None \<and> bottom_slot out \<noteq> None))
   \<and> (\<forall>t b. top_slot out = Some t \<and> bottom_slot out = Some b \<longrightarrow>
         do_formalities_match (Some t) (Some b) 1 \<and> \<not> do_colors_clash (color t) (color b))"

text \<open>The later steps of an attempt leave the three torso slots as they are.\<close>

definition same_torso :: "selection \<Rightarrow> selection \<Rightarrow> bool" where
  "same_torso s s' \<longleftrightarrow>
     top_slot (outfit s') = top_slot (outfit s)
   \<and> bottom_slot (outfit s') = bottom_slot (outfit s)
   \<and> dress_slot (outfit s') = dress_slot (outfit s)"

text \<open>
  The accessory loop keeps \<^verbatim>\<open>selected_accessory_ids\<close> equal to the ids of the accessories
  chosen so far, which are pairwise different.
\<close>

definition ids_tracked :: "selection \<times> int set \<times> rng \<Rightarrow> bool" where
  "ids_tracked st \<longleftrightarrow>
     (case st of (s, ids, r) \<Rightarrow>
        ids = item_id ` set (accessories_slot (outfit s))
      \<and> distinct (map item_id (accessories_slot (outfit s))))"

definition result_ok :: "outfit \<Rightarrow> bool" where
  "result_ok out \<longleftrightarrow>
     anchor_ok out \<and> length (accessories_slot out) \<le> 3
   \<and> distinct (map item_id (accessories_slot out))"

text \<open>The torso-exclusivity invariant of an outfit.\<close>

definition torso_exclusive :: "outfit \<Rightarrow> bool" where
  "torso_exclusive out \<longleftrightarrow>
     \<not> (dress_slot out \<noteq> None \<and> (top_slot out \<noteq> None \<or> bottom_slot out \<noteq> None))"

text \<open>The compatibility of one pair of items, as the pair loops test it.\<close>

definition pair_compatible :: "item \<Rightarrow> item \<Rightarrow> bool" where
  "pair_compatible item1 item2 \<longleftrightarrow>
     \<not> do_colors_clash (color item1) (color item2)
   \<and> do_formalities_match (Some item1) (Some item2) 1"

section \<open>An example wardrobe\<close>

text \<open>
  Items as the catalog stores them (colors and formalities in lower case), and two
  outfits, used where a statement is evaluated on a concrete input.
\<close>

definition ex_top :: item where
  "ex_top = \<lparr>item_id = 1, category = ''Top'', color = ''black'', pattern = ''Solid'',
     formality = ''casual'', image_path = ''wardrobe_photos/top/shirt_1a2b3c4d.png''\<rparr>"

definition ex_bottom :: item where
  "ex_bottom = \<lparr>item_id = 2, category = ''Bottom'', color = ''black'', pattern = ''Solid'',
     formality = ''casual'', image_path = ''wardrobe_photos/bottom/jeans_5e6f7a8b.png''\<rparr>"

definition ex_scarf :: item where
  "ex_scarf = \<lparr>item_id = 10, category = ''Accessory'', color = ''red'', pattern = ''Solid'',
     formality = ''smart casual'', image_path = ''wardrobe_photos/accessory/scarf_0a0b0c0d.png''\<rparr>"

definition ex_hat :: item where
  "ex_hat = \<lparr>item_id = 11, category = ''Accessory'', color = ''white'', pattern = ''Solid'',
     formality = ''casual'', image_path = ''wardrobe_photos/accessory/hat_0e0f0a0b.png''\<rparr>"

definition ex_striped_top :: item where
  "ex_striped_top = \<lparr>item_id = 3, category = ''Top'', color = ''black'', pattern = ''Striped'',
     formality = ''casual'', image_path = ''wardrobe_photos/top/polo_11223344.png''\<rparr>"

definition ex_floral_bottom :: item where
  "ex_floral_bottom = \<lparr>item_id = 4, category = ''Bottom'', color = ''black'', pattern = ''Floral'',
     formality = ''casual'', image_path = ''wardrobe_photos/bottom/skirt_55667788.png''\<rparr>"

definition ex_red_top :: item where
  "ex_red_top = \<lparr>item_id = 5, category = ''Top'', color = ''red'', pattern = ''Solid'',
     formality = ''formal'', image_path = ''wardrobe_photos/top/blouse_99aabbcc.png''\<rparr>"

definition ex_green_bottom :: item where
  "ex_green_bottom = \<lparr>item_id = 6, category = ''Bottom'', color = ''green'', pattern = ''Solid'',
     formality = ''semi-formal'', image_path = ''wardrobe_photos/bottom/chinos_ddeeff00.png''\<rparr>"

definition ex_dress :: item where
  "ex_dress = \<lparr>item_id = 7, category = ''Dress'', color = ''black'', pattern = ''Solid'',
     formality = ''casual'', image_path = ''wardrobe_photos/dress/dress_01020304.png''\<rparr>"

definition ex_gown :: item where
  "ex_gown = \<lparr>item_id = 8, category = ''Dress'', color = ''navy'', pattern = ''Solid'',
     formality = ''smart casual'', image_path = ''wardrobe_photos/dress/gown_05060708.png''\<rparr>"

definition ex_shoes :: item where
  "ex_shoes = \<lparr>item_id = 9, category = ''Shoes'', color = ''black'', pattern = ''Solid'',
     formality = ''casual'', image_path = ''wardrobe_photos/shoes/boots_090a0b0c.png''\<rparr>"

definition ex_outfit :: outfit where
  "ex_outfit = \<lparr>top_slot = Some ex_top, bottom_slot = Some ex_bottom, dress_slot = None,
     outerwear_slot = None, accessories_slot = [], shoes_slot = None\<rparr>"

definition ex_dress_outfit :: outfit where
  "ex_dress_outfit = \<lparr>top_slot = None, bottom_slot = None, dress_slot = Some ex_dress,
     outerwear_slot = None, accessories_slot = [], shoes_slot = None\<rparr>"

definition ex_generated :: outfit where
  "ex_generated = \<lparr>top_slot = Some ex_top, bottom_slot = Some ex_bottom, dress_slot = None,
     outerwear_slot = None, accessories_slot = [ex_scarf, ex_hat], shoes_slot = None\<rparr>"

section \<open>Properties of the rule predicates\<close>

lemma lower_Nil_iff: "lower s = [] \<longleftrightarrow> s = []"
  by (simp add: lower_def)

text \<open>
  Claim C7. \<open>do_colors_clash\<close> is false whenever either argument, lower-cased, is empty or
  is one of the neutral colors black, white, grey, beige, navy; so a neutral color clashes
  with no color, a neutral one included.
\<close>

theorem neutral_or_empty_never_clashes:
  assumes "lower c1 = [] \<or> lower c1 \<in> set neutral_colors
         \<or> lower c2 = [] \<or> lower c2 \<in> set neutral_colors"
  shows "\<not> do_colors_clash c1 c2"
  using assms by (auto simp: do_colors_clash_def lower_Nil_iff)

theorem neutral_or_empty_never_clashes_witness:
  "(lower ''Black'' = [] \<or> lower ''Black'' \<in> set neutral_colors
     \<or> lower ''NAVY'' = [] \<or> lower ''NAVY'' \<in> set neutral_colors)
   \<and> \<not> do_colors_clash ''Black'' ''NAVY''
   \<and> \<not> do_colors_clash '''' ''red''
   \<and> \<not> do_colors_clash ''green'' ''White''"
proof -
  have b: "lower ''Black'' \<in> set neutral_colors"
    by (simp add: lower_def char_lower_def neutral_colors_def)
  have w: "lower ''White'' \<in> set neutral_colors"
    by (simp add: lower_def char_lower_def neutral_colors_def)
  have e: "lower '''' = []"
    by (simp add: lower_def)
  show ?thesis
    using b neutral_or_empty_never_clashes [of "''Black''" "''NAVY''"]
      neutral_or_empty_never_clashes [of "''''" "''red''"] e
      neutral_or_empty_never_clashes [of "''green''" "''White''"] w
    by blast
qed

text \<open>
  Claim C8. \<open>do_colors_clash\<close> is symmetric: the table \<open>clashing_colors\<close> is looked up in
  both directions, so swapping the arguments never changes the answer.
\<close>

theorem do_colors_clash_symmetric: "do_colors_clash a b = do_colors_clash b a"
  by (auto simp: do_colors_clash_def)

section \<open>Properties of the assembler\<close>

lemma get_random_element_cases:
  "get_random_element arr r = (x, r') \<Longrightarrow>
     (arr = [] \<and> x = None \<and> r' = r) \<or> (arr \<noteq> [] \<and> (\<exists>y. x = Some y \<and> y \<in> set arr) \<and> r' = stl r)"
  by (auto simp: get_random_element_def split: if_splits)

lemma get_random_element_nonempty:
  "arr \<noteq> [] \<Longrightarrow> \<exists>y. fst (get_random_element arr r) = Some y \<and> y \<in> set arr"
  by (simp add: get_random_element_def)

lemma get_random_element_singleton:
  "get_random_element [x] r = (Some x, stl r)"
  by (simp add: get_random_element_def)

lemma get_random_element_Nil:
  "get_random_element [] r = (None, r)"
  by (simp add: get_random_element_def)

lemma select_anchor_ok:
  assumes "select_anchor tops bottoms dresses r = (Some s, r')"
  shows "anchor_ok (outfit s) \<and> selected_items_for_rules s \<noteq> []
     \<and> accessories_slot (outfit s) = []"
  using assms
  by (auto simp: select_anchor_def anchor_ok_def new_outfit_def Let_def
      split: prod.splits option.splits if_splits dest!: get_random_element_cases)

lemma select_outerwear_keeps:
  "select_outerwear avail s r = (s', r') \<Longrightarrow>
     same_torso s s' \<and> accessories_slot (outfit s') = accessories_slot (outfit s)"
  by (auto simp: select_outerwear_def same_torso_def Let_def
      split: prod.splits option.splits if_splits)

lemma select_shoes_keeps:
  "select_shoes avail s r = (s', r') \<Longrightarrow>
     same_torso s s' \<and> accessories_slot (outfit s') = accessories_slot (outfit s)"
  by (auto simp: select_shoes_def same_torso_def Let_def
      split: prod.splits option.splits if_splits)

lemma accessory_step_props:
  assumes "accessory_step avail (s, ids, r) = (s', ids', r')"
  shows "same_torso s s'"
    and "length (accessories_slot (outfit s')) \<le> Suc (length (accessories_slot (outfit s)))"
    and "ids_tracked (s, ids, r) \<Longrightarrow> ids_tracked (s', ids', r')"
  using assms
  by (auto simp: accessory_step_def same_torso_def ids_tracked_def Let_def
      split: prod.splits option.splits if_splits)

lemma accessory_loop_props:
  assumes "accessory_loop n avail (s, ids, r) = (s', ids', r')"
  shows "same_torso s s'
     \<and> length (accessories_slot (outfit s')) \<le> length (accessories_slot (outfit s)) + n
     \<and> (ids_tracked (s, ids, r) \<longrightarrow> ids_tracked (s', ids', r'))"
  using assms
proof (induction n arbitrary: s ids r)
  case 0
  then show ?case by (simp add: same_torso_def)
next
  case (Suc n)
  obtain s1 ids1 r1 where step: "accessory_step avail (s, ids, r) = (s1, ids1, r1)"
    by (metis prod_cases3)
  with Suc.prems have rest: "accessory_loop n avail (s1, ids1, r1) = (s', ids', r')"
    by simp
  from Suc.IH [OF rest] accessory_step_props [OF step]
  show ?case by (auto simp: same_torso_def)
qed

lemma select_accessories_props:
  assumes "select_accessories avail s r = (s', r')"
    and "accessories_slot (outfit s) = []"
  shows "same_torso s s'
     \<and> length (accessories_slot (outfit s')) \<le> 3
     \<and> distinct (map item_id (accessories_slot (outfit s')))"
proof (cases "avail = []")
  case True
  with assms show ?thesis by (simp add: select_accessories_def same_torso_def)
next
  case False
  define n where "n = fst (randint0 (min (length avail) 3) r)"
  define r1 where "r1 = snd (randint0 (min (length avail) 3) r)"
  have n3: "n \<le> 3"
    unfolding n_def randint0_def
    by simp (metis Suc_eq_plus1 le_trans less_Suc_eq_le min.cobounded2 mod_less_divisor zero_less_Suc)
  obtain ids' where loop: "accessory_loop n avail (s, {}, r1) = (s', ids', r')"
    using assms(1) False
    by (auto simp: select_accessories_def n_def r1_def Let_def split: prod.splits)
  have "ids_tracked (s, {}, r1)"
    using assms(2) by (simp add: ids_tracked_def)
  with accessory_loop_props [OF loop] assms(2) n3
  show ?thesis by (auto simp: ids_tracked_def)
qed

lemma anchor_ok_same_torso:
  "anchor_ok (outfit s) \<Longrightarrow> same_torso s s' \<Longrightarrow> anchor_ok (outfit s')"
  by (simp add: anchor_ok_def same_torso_def)

lemma same_torso_trans: "same_torso a b \<Longrightarrow> same_torso b c \<Longrightarrow> same_torso a c"
  by (simp add: same_torso_def)

lemma attempt_Return:
  assumes "attempt cats lvl r = (Return res, r')"
  shows "\<exists>out. res = Some out \<and> result_ok out"
proof -
  let ?f = "filter (\<lambda>i. is_item_suitable_for_occasion i lvl)"
  obtain a r1 where anchor:
    "select_anchor (?f (cat_Top cats)) (?f (cat_Bottom cats)) (?f (cat_Dress cats)) r = (a, r1)"
    by (metis surj_pair)
  show ?thesis
  proof (cases a)
    case None
    with assms anchor show ?thesis by (simp add: attempt_def)
  next
    case (Some s1)
    note ok1 = select_anchor_ok [OF anchor [unfolded Some]]
    obtain s2 r2 where ow: "select_outerwear (?f (cat_Outerwear cats)) s1 r1 = (s2, r2)"
      by (metis surj_pair)
    obtain s3 r3 where sh: "select_shoes (?f (cat_Shoes cats)) s2 r2 = (s3, r3)"
      by (metis surj_pair)
    obtain s4 r4 where ac: "select_accessories (?f (cat_Accessory cats)) s3 r3 = (s4, r4)"
      by (metis surj_pair)
    from assms anchor Some ok1 ow sh ac have res: "res = Some (outfit s4)"
      by (simp add: attempt_def split: if_splits)
    from select_outerwear_keeps [OF ow] select_shoes_keeps [OF sh] ok1
    have e3: "accessories_slot (outfit s3) = []" and t3: "same_torso s1 s3"
      by (auto intro: same_torso_trans)
    from select_accessories_props [OF ac e3] t3 ok1
    have "result_ok (outfit s4)"
      by (auto simp: result_ok_def intro: anchor_ok_same_torso same_torso_trans)
    with res show ?thesis by simp
  qed
qed

lemma generate_loop_result:
  "generate_loop cats lvl attempts r = (Some out, n) \<Longrightarrow> result_ok out"
proof (induction cats lvl attempts r rule: generate_loop.induct)
  case (1 cats lvl attempts r)
  show ?case
  proof (cases "attempts < max_attempts")
    case False
    with "1.prems" show ?thesis by (simp add: generate_loop.simps [of cats lvl attempts r])
  next
    case True
    obtain x r' where att: "attempt cats lvl r = (x, r')" by (metis surj_pair)
    show ?thesis
    proof (cases x)
      case Continue
      with "1.prems" True att
      have "generate_loop cats lvl (Suc attempts) r' = (Some out, n)"
        by (simp add: generate_loop.simps [of cats lvl attempts r])
      with "1.IH" [OF True att [symmetric] Continue] show ?thesis by simp
    next
      case (Return res)
      with "1.prems" True att have "res = Some out"
        by (simp add: generate_loop.simps [of cats lvl attempts r])
      with attempt_Return [OF att [unfolded Return]] show ?thesis by simp
    qed
  qed
qed

lemma generate_loop_attempts:
  "attempts \<le> max_attempts \<Longrightarrow> snd (generate_loop cats lvl attempts r) \<le> max_attempts"
proof (induction cats lvl attempts r rule: generate_loop.induct)
  case (1 cats lvl attempts r)
  show ?case
  proof (cases "attempts < max_attempts")
    case False
    with "1.prems" show ?thesis by (simp add: generate_loop.simps [of cats lvl attempts r])
  next
    case True
    obtain x r' where att: "attempt cats lvl r = (x, r')" by (metis surj_pair)
    show ?thesis
    proof (cases x)
      case Continue
      with True att "1.IH" [OF True att [symmetric] Continue]
      show ?thesis
        by (simp add: generate_loop.simps [of cats lvl attempts r])
    next
      case (Return res)
      with True att show ?thesis
        by (simp add: generate_loop.simps [of cats lvl attempts r])
    qed
  qed
qed

lemma generate_loop_all_Continue:
  assumes "\<forall>r. fst (attempt cats lvl r) = Continue"
  shows "generate_loop cats lvl attempts r = (None, max attempts max_attempts)"
  using assms
proof (induction cats lvl attempts r rule: generate_loop.induct)
  case (1 cats lvl attempts r)
  show ?case
  proof (cases "attempts < max_attempts")
    case False
    then show ?thesis by (simp add: generate_loop.simps [of cats lvl attempts r])
  next
    case True
    obtain x r' where att: "attempt cats lvl r = (x, r')" by (metis surj_pair)
    from att "1.prems" have x: "x = Continue" by (metis fst_conv)
    from "1.IH" [OF True att [symmetric] x "1.prems"] True att x
    show ?thesis
      by (simp add: generate_loop.simps [of cats lvl attempts r])
  qed
qed

lemma generate_loop_first_Return:
  assumes "attempt cats lvl r = (Return res, r')" and "attempts < max_attempts"
  shows "generate_loop cats lvl attempts r = (res, Suc attempts)"
  using assms by (simp add: generate_loop.simps [of cats lvl attempts r])

lemma add_to_categories_fields:
  "cat_Top (add_to_categories c x) = cat_Top c @ filter (\<lambda>i. category i = ''Top'') [x]"
  "cat_Bottom (add_to_categories c x) = cat_Bottom c @ filter (\<lambda>i. category i = ''Bottom'') [x]"
  "cat_Dress (add_to_categories c x) = cat_Dress c @ filter (\<lambda>i. category i = ''Dress'') [x]"
  "cat_Outerwear (add_to_categories c x) = cat_Outerwear c @ filter (\<lambda>i. category i = ''Outerwear'') [x]"
  "cat_Accessory (add_to_categories c x) = cat_Accessory c @ filter (\<lambda>i. category i = ''Accessory'') [x]"
  "cat_Shoes (add_to_categories c x) = cat_Shoes c @ filter (\<lambda>i. category i = ''Shoes'') [x]"
  by (simp_all add: add_to_categories_def)

lemma foldl_add_to_categories:
  "cat_Top (foldl add_to_categories c xs) = cat_Top c @ filter (\<lambda>i. category i = ''Top'') xs
 \<and> cat_Bottom (foldl add_to_categories c xs) = cat_Bottom c @ filter (\<lambda>i. category i = ''Bottom'') xs
 \<and> cat_Dress (foldl add_to_categories c xs) = cat_Dress c @ filter (\<lambda>i. category i = ''Dress'') xs
 \<and> cat_Outerwear (foldl add_to_categories c xs) = cat_Outerwear c @ filter (\<lambda>i. category i = ''Outerwear'') xs
 \<and> cat_Accessory (foldl add_to_categories c xs) = cat_Accessory c @ filter (\<lambda>i. category i = ''Accessory'') xs
 \<and> cat_Shoes (foldl add_to_categories c xs) = cat_Shoes c @ filter (\<lambda>i. category i = ''Shoes'') xs"
proof (induction xs arbitrary: c)
  case Nil
  show ?case by simp
next
  case (Cons x xs)
  from Cons.IH [of "add_to_categories c x"] show ?case
    by (simp add: add_to_categories_fields)
qed

lemma OutfitGenerator_filter:
  "OutfitGenerator xs =
     \<lparr>cat_Top = filter (\<lambda>i. category i = ''Top'') xs,
      cat_Bottom = filter (\<lambda>i. category i = ''Bottom'') xs,
      cat_Dress = filter (\<lambda>i. category i = ''Dress'') xs,
      cat_Outerwear = filter (\<lambda>i. category i = ''Outerwear'') xs,
      cat_Accessory = filter (\<lambda>i. category i = ''Accessory'') xs,
      cat_Shoes = filter (\<lambda>i. category i = ''Shoes'') xs\<rparr>"
  using foldl_add_to_categories [of empty_categories xs]
  by (simp add: OutfitGenerator_def empty_categories_def)

lemma OutfitGenerator_top_bottom:
  assumes "category t = ''Top''" and "category b = ''Bottom''"
    and "xs = [t, b] \<or> xs = [b, t]"
  shows "OutfitGenerator xs =
     \<lparr>cat_Top = [t], cat_Bottom = [b], cat_Dress = [], cat_Outerwear = [],
      cat_Accessory = [], cat_Shoes = []\<rparr>"
  using assms by (auto simp: OutfitGenerator_filter)

lemma red_green_clash:
  assumes "lower c1 = ''red''" and "lower c2 = ''green''"
  shows "do_colors_clash c1 c2"
proof -
  from assms have "c1 \<noteq> []" "c2 \<noteq> []" by (auto simp: lower_def)
  moreover have "in_clash_list ''red'' ''green''"
    by (simp add: in_clash_list_def clashing_colors_def)
  ultimately show ?thesis
    using assms by (simp add: do_colors_clash_def neutral_colors_def)
qed

lemma attempt_clashing_pair:
  assumes "do_colors_clash (color t) (color b)"
  shows "fst (attempt \<lparr>cat_Top = [t], cat_Bottom = [b], cat_Dress = [], cat_Outerwear = [],
      cat_Accessory = [], cat_Shoes = []\<rparr> lvl r) = Continue"
  using assms
  by (cases "is_item_suitable_for_occasion t lvl"; cases "is_item_suitable_for_occasion b lvl")
    (simp_all add: attempt_def select_anchor_def get_random_element_def new_outfit_def)

lemma attempt_empty:
  "fst (attempt (OutfitGenerator []) lvl r) = Continue"
  by (simp add: attempt_def select_anchor_def get_random_element_def new_outfit_def
      OutfitGenerator_def empty_categories_def)

lemma generate_outfit_empty_exhausts:
  "generate_outfit (OutfitGenerator []) occasion r = (None, 1000)"
  using generate_loop_all_Continue [of "OutfitGenerator []" _ 0 r] attempt_empty
  by (simp add: generate_outfit_def max_attempts_def)

lemma black_never_clashes:
  assumes "lower c1 = ''black''"
  shows "\<not> do_colors_clash c1 c2"
  using assms by (simp add: do_colors_clash_def neutral_colors_def)

lemma patterned_items_count_pair:
  "patterned_items_count [t, b] =
     (if lower (pattern t) \<noteq> ''solid'' then 1 else 0)
   + (if lower (pattern b) \<noteq> ''solid'' then 1 else 0)"
  by (simp add: patterned_items_count_def)

lemma attempt_compatible_pair:
  assumes "do_formalities_match (Some t) (Some b) 1"
    and "\<not> do_colors_clash (color t) (color b)"
  shows "attempt \<lparr>cat_Top = [t], cat_Bottom = [b], cat_Dress = [], cat_Outerwear = [],
      cat_Accessory = [], cat_Shoes = []\<rparr> 0 r =
     (if do_patterns_match [t, b]
      then Return (Some \<lparr>top_slot = Some t, bottom_slot = Some b, dress_slot = None,
             outerwear_slot = None, accessories_slot = [], shoes_slot = None\<rparr>)
      else Continue, stl (stl r))"
  using assms
  by (simp add: attempt_def select_anchor_def get_random_element_def new_outfit_def
      is_item_suitable_for_occasion_def select_outerwear_def select_shoes_def
      select_accessories_def)

lemma same_formality_matches:
  assumes "lower (formality t) = lower (formality b)"
  shows "do_formalities_match (Some t) (Some b) 1"
  using assms by (simp add: do_formalities_match_def formality_rank_def)

lemma occasion_Any: "get_or_zero occasion_formality_map ''Any'' = 0"
  by (simp add: get_or_zero_def occasion_formality_map_def)

lemma generate_black_pair:
  assumes "category t = ''Top''" and "category b = ''Bottom''"
    and "lower (color t) = ''black''" and "lower (color b) = ''black''"
    and "lower (formality t) = ''casual''" and "lower (formality b) = ''casual''"
    and "clothing_items = [t, b] \<or> clothing_items = [b, t]"
  shows "generate_outfit (OutfitGenerator clothing_items) ''Any'' r =
     (if lower (pattern t) \<noteq> ''solid'' \<and> lower (pattern b) \<noteq> ''solid''
      then (None, max_attempts)
      else (Some \<lparr>top_slot = Some t, bottom_slot = Some b, dress_slot = None,
              outerwear_slot = None, accessories_slot = [], shoes_slot = None\<rparr>, 1))"
proof -
  let ?cats = "\<lparr>cat_Top = [t], cat_Bottom = [b], cat_Dress = [], cat_Outerwear = [],
      cat_Accessory = [], cat_Shoes = []\<rparr>"
  have cats: "OutfitGenerator clothing_items = ?cats"
    using assms(1,2,7) by (rule OutfitGenerator_top_bottom)
  have m: "do_formalities_match (Some t) (Some b) 1"
    using assms(5,6) by (simp add: same_formality_matches)
  have c: "\<not> do_colors_clash (color t) (color b)"
    using assms(3) by (rule black_never_clashes)
  note att = attempt_compatible_pair [OF m c]
  show ?thesis
  proof (cases "lower (pattern t) \<noteq> ''solid'' \<and> lower (pattern b) \<noteq> ''solid''")
    case True
    then have "\<not> do_patterns_match [t, b]"
      by (simp add: do_patterns_match_def patterned_items_count_pair)
    with att have "\<forall>r. fst (attempt ?cats 0 r) = Continue" by simp
    from generate_loop_all_Continue [OF this, of 0 r] True cats show ?thesis
      by (simp add: generate_outfit_def occasion_Any)
  next
    case False
    then have "do_patterns_match [t, b]"
      by (auto simp: do_patterns_match_def patterned_items_count_pair)
    with att have "attempt ?cats 0 r = (Return (Some \<lparr>top_slot = Some t, bottom_slot = Some b,
        dress_slot = None, outerwear_slot = None, accessories_slot = [], shoes_slot = None\<rparr>),
        stl (stl r))"
      by simp
    from generate_loop_first_Return [OF this, of 0] False cats show ?thesis
      by (simp add: generate_outfit_def occasion_Any max_attempts_def)
  qed
qed

section \<open>Properties of the substitution dialog\<close>

lemma inner_pair_loop_iff:
  "inner_pair_loop x ys \<longleftrightarrow> (\<forall>y\<in>set ys. pair_compatible x y)"
  by (induction ys) (auto simp: pair_compatible_def)

lemma outer_pair_loop_sorted_wrt:
  "outer_pair_loop xs \<longleftrightarrow> sorted_wrt pair_compatible xs"
  by (induction xs) (auto simp: inner_pair_loop_iff)

lemma outer_pair_loop_nth:
  "outer_pair_loop xs \<longleftrightarrow>
     (\<forall>i j. i < j \<and> j < length xs \<longrightarrow> pair_compatible (xs ! i) (xs ! j))"
  by (auto simp: outer_pair_loop_sorted_wrt sorted_wrt_iff_nth_less)

lemma is_compatible_candidate_iff:
  "is_compatible_candidate g s lvl c \<longleftrightarrow>
     category_matches (slot_name s) c
   \<and> is_item_suitable_for_occasion c lvl
   \<and> outer_pair_loop (proposed_outfit_items (current_outfit_copy g s c))
   \<and> do_patterns_match (proposed_outfit_items (current_outfit_copy g s c))"
  by (auto simp: is_compatible_candidate_def Let_def)

lemma lower_slot_name: "lower (slot_name s) = slot_name s"
proof (cases s)
  case (Main m)
  then show ?thesis by (cases m) (simp_all add: lower_def char_lower_def)
next
  case Accessories
  then show ?thesis by (simp add: lower_def char_lower_def)
qed

lemma slot_name_accessories: "slot_name s = ''accessories'' \<longleftrightarrow> s = Accessories"
proof (cases s)
  case (Main m)
  then show ?thesis by (cases m) simp_all
next
  case Accessories
  then show ?thesis by simp
qed

lemma category_matches_iff:
  "category_matches (slot_name s) c \<longleftrightarrow>
     lower (category c) = slot_name s \<or> (s = Accessories \<and> lower (category c) = ''accessory'')"
  by (auto simp: category_matches_def lower_slot_name slot_name_accessories)

lemma category_values_lower:
  "x \<in> set category_values \<Longrightarrow> lower x \<noteq> ''accessories''"
  by (auto simp: category_values_def lower_def char_lower_def)

lemma category_values_accessory:
  "x \<in> set category_values \<Longrightarrow> lower x = ''accessory'' \<Longrightarrow> x = ''Accessory''"
  by (auto simp: category_values_def lower_def char_lower_def)

lemma find_in_filter:
  "find P (filter Q xs) = Some c \<Longrightarrow> P c \<and> Q c \<and> c \<in> set xs"
  by (induction xs) (auto split: if_splits)

lemma select_item_torso_exclusive:
  "torso_exclusive g \<Longrightarrow> torso_exclusive (select_item g s compatible selected_id)"
proof (cases s)
  case (Main m)
  assume "torso_exclusive g"
  with Main show ?thesis
    by (cases m) (auto simp: select_item_def torso_exclusive_def split: option.splits)
next
  case Accessories
  assume "torso_exclusive g"
  with Accessories show ?thesis
    by (auto simp: select_item_def torso_exclusive_def split: option.splits)
qed

section \<open>The example wardrobe evaluated\<close>

lemmas ex_items = ex_top_def ex_bottom_def ex_scarf_def ex_hat_def

lemmas table_defs = lower_def char_lower_def formality_levels_def occasion_formality_map_def
  clashing_colors_def neutral_colors_def get_or_zero_def in_clash_list_def

lemma ex_cats:
  "OutfitGenerator [ex_top, ex_bottom, ex_scarf, ex_hat] =
     \<lparr>cat_Top = [ex_top], cat_Bottom = [ex_bottom], cat_Dress = [], cat_Outerwear = [],
      cat_Accessory = [ex_scarf, ex_hat], cat_Shoes = []\<rparr>"
  by (simp add: OutfitGenerator_filter ex_items)

lemma ex_fields:
  "item_id ex_top = 1" "item_id ex_bottom = 2" "item_id ex_scarf = 10" "item_id ex_hat = 11"
  "color ex_top = ''black''" "color ex_bottom = ''black''"
  by (simp_all add: ex_items)

lemma ex_ranks:
  "formality_rank ex_top = 1" "formality_rank ex_bottom = 1"
  "formality_rank ex_scarf = 2" "formality_rank ex_hat = 1"
  by (simp_all add: ex_items formality_rank_def table_defs)

lemma ex_match:
  "do_formalities_match (Some ex_top) (Some ex_bottom) 1"
  "do_formalities_match (Some ex_top) (Some ex_scarf) 1"
  "do_formalities_match (Some ex_top) (Some ex_hat) 1"
  by (simp_all add: do_formalities_match_def ex_ranks)

lemma ex_no_clash: "\<not> do_colors_clash ''black'' c"
  by (simp add: do_colors_clash_def table_defs)

lemma ex_patterns: "do_patterns_match [ex_top, ex_bottom, ex_scarf, ex_hat]"
  by (simp add: do_patterns_match_def patterned_items_count_def ex_items table_defs)

lemma ex_anchor:
  "select_anchor [ex_top] [ex_bottom] [] (0 ## 0 ## r) =
     (Some \<lparr>outfit = \<lparr>top_slot = Some ex_top, bottom_slot = Some ex_bottom, dress_slot = None,
               outerwear_slot = None, accessories_slot = [], shoes_slot = None\<rparr>,
            selected_items_for_rules = [ex_top, ex_bottom]\<rparr>, r)"
  by (simp add: select_anchor_def get_random_element_def new_outfit_def
      ex_match ex_no_clash ex_fields)

lemma ex_draws:
  "get_random_element [ex_scarf, ex_hat] (0 ## r) = (Some ex_scarf, r)"
  "get_random_element [ex_scarf, ex_hat] (3 ## r) = (Some ex_hat, r)"
proof -
  have l: "length [ex_scarf, ex_hat] = 2" by simp
  show "get_random_element [ex_scarf, ex_hat] (0 ## r) = (Some ex_scarf, r)"
    unfolding get_random_element_def l by simp
  show "get_random_element [ex_scarf, ex_hat] (3 ## r) = (Some ex_hat, r)"
    unfolding get_random_element_def l by simp
qed

lemma ex_acc_step1:
  "accessory_step [ex_scarf, ex_hat]
     (\<lparr>outfit = \<lparr>top_slot = Some ex_top, bottom_slot = Some ex_bottom, dress_slot = None,
               outerwear_slot = None, accessories_slot = [], shoes_slot = None\<rparr>,
       selected_items_for_rules = [ex_top, ex_bottom]\<rparr>, {}, 0 ## r) =
     (\<lparr>outfit = \<lparr>top_slot = Some ex_top, bottom_slot = Some ex_bottom, dress_slot = None,
               outerwear_slot = None, accessories_slot = [ex_scarf], shoes_slot = None\<rparr>,
       selected_items_for_rules = [ex_top, ex_bottom, ex_scarf]\<rparr>, {10}, r)"
  by (simp add: accessory_step_def ex_draws ex_match ex_no_clash ex_fields)

lemma ex_acc_step2:
  "accessory_step [ex_scarf, ex_hat]
     (\<lparr>outfit = \<lparr>top_slot = Some ex_top, bottom_slot = Some ex_bottom, dress_slot = None,
               outerwear_slot = None, accessories_slot = [ex_scarf], shoes_slot = None\<rparr>,
       selected_items_for_rules = [ex_top, ex_bottom, ex_scarf]\<rparr>, {10}, 3 ## r) =
     (\<lparr>outfit = \<lparr>top_slot = Some ex_top, bottom_slot = Some ex_bottom, dress_slot = None,
               outerwear_slot = None, accessories_slot = [ex_scarf, ex_hat], shoes_slot = None\<rparr>,
       selected_items_for_rules = [ex_top, ex_bottom, ex_scarf, ex_hat]\<rparr>, {10, 11}, r)"
  by (simp add: accessory_step_def ex_draws ex_match ex_no_clash ex_fields insert_commute)

lemma ex_accessories:
  "select_accessories [ex_scarf, ex_hat]
     \<lparr>outfit = \<lparr>top_slot = Some ex_top, bottom_slot = Some ex_bottom, dress_slot = None,
               outerwear_slot = None, accessories_slot = [], shoes_slot = None\<rparr>,
       selected_items_for_rules = [ex_top, ex_bottom]\<rparr> (2 ## 0 ## 3 ## r) =
     (\<lparr>outfit = \<lparr>top_slot = Some ex_top, bottom_slot = Some ex_bottom, dress_slot = None,
               outerwear_slot = None, accessories_slot = [ex_scarf, ex_hat], shoes_slot = None\<rparr>,
       selected_items_for_rules = [ex_top, ex_bottom, ex_scarf, ex_hat]\<rparr>, r)"
proof -
  have n: "randint0 (min (length [ex_scarf, ex_hat]) 3) (2 ## 0 ## 3 ## r) = (Suc (Suc 0), 0 ## 3 ## r)"
    by (simp add: randint0_def)
  show ?thesis
    unfolding select_accessories_def n
    by (simp add: ex_acc_step1 ex_acc_step2)
qed

lemma ex_attempt:
  "attempt \<lparr>cat_Top = [ex_top], cat_Bottom = [ex_bottom], cat_Dress = [], cat_Outerwear = [],
      cat_Accessory = [ex_scarf, ex_hat], cat_Shoes = []\<rparr> 0
      (0 ## 0 ## 2 ## 0 ## 3 ## r) =
   (Return (Some \<lparr>top_slot = Some ex_top, bottom_slot = Some ex_bottom, dress_slot = None,
      outerwear_slot = None, accessories_slot = [ex_scarf, ex_hat], shoes_slot = None\<rparr>), r)"
  by (simp add: attempt_def is_item_suitable_for_occasion_def ex_anchor
      select_outerwear_def select_shoes_def ex_accessories ex_patterns)

lemma ex_generate:
  "generate_outfit (OutfitGenerator [ex_top, ex_bottom, ex_scarf, ex_hat]) ''Any''
      (0 ## 0 ## 2 ## 0 ## 3 ## sconst 0) =
   (Some \<lparr>top_slot = Some ex_top, bottom_slot = Some ex_bottom, dress_slot = None,
      outerwear_slot = None, accessories_slot = [ex_scarf, ex_hat], shoes_slot = None\<rparr>, 1)"
proof -
  have "generate_loop \<lparr>cat_Top = [ex_top], cat_Bottom = [ex_bottom], cat_Dress = [],
      cat_Outerwear = [], cat_Accessory = [ex_scarf, ex_hat], cat_Shoes = []\<rparr> 0 0
      (0 ## 0 ## 2 ## 0 ## 3 ## sconst 0) =
    (Some \<lparr>top_slot = Some ex_top, bottom_slot = Some ex_bottom, dress_slot = None,
      outerwear_slot = None, accessories_slot = [ex_scarf, ex_hat], shoes_slot = None\<rparr>, Suc 0)"
    by (rule generate_loop_first_Return [OF ex_attempt]) (simp add: max_attempts_def)
  then show ?thesis
    by (simp add: generate_outfit_def occasion_Any ex_cats)
qed

lemmas ex_items2 = ex_striped_top_def ex_floral_bottom_def ex_red_top_def ex_green_bottom_def
  ex_dress_def ex_gown_def ex_shoes_def

lemma ex_lower_category:
  "lower (category ex_top) = ''top''" "lower (category ex_bottom) = ''bottom''"
  "lower (category ex_scarf) = ''accessory''" "lower (category ex_hat) = ''accessory''"
  "lower (category ex_dress) = ''dress''" "lower (category ex_gown) = ''dress''"
  "lower (category ex_shoes) = ''shoes''"
  by (simp_all add: ex_items ex_items2 lower_def char_lower_def)

lemma ex_solid:
  "lower (pattern ex_top) = ''solid''" "lower (pattern ex_bottom) = ''solid''"
  "lower (pattern ex_scarf) = ''solid''" "lower (pattern ex_hat) = ''solid''"
  "lower (pattern ex_dress) = ''solid''" "lower (pattern ex_gown) = ''solid''"
  "lower (pattern ex_shoes) = ''solid''"
  by (simp_all add: ex_items ex_items2 lower_def char_lower_def)

lemma ex_fields2:
  "item_id ex_dress = 7" "item_id ex_gown = 8" "item_id ex_shoes = 9"
  "color ex_dress = ''black''" "color ex_shoes = ''black''"
  by (simp_all add: ex_items2)

lemma ex_ranks2:
  "formality_rank ex_dress = 1" "formality_rank ex_gown = 2" "formality_rank ex_shoes = 1"
  by (simp_all add: ex_items2 formality_rank_def table_defs)

lemma pair_compatible_black:
  "color x = ''black'' \<Longrightarrow> pair_compatible x y \<longleftrightarrow> \<bar>formality_rank x - formality_rank y\<bar> \<le> 1"
  by (simp add: pair_compatible_def ex_no_clash do_formalities_match_def)

lemma suitable_Any: "is_item_suitable_for_occasion i 0"
  by (simp add: is_item_suitable_for_occasion_def)

lemma do_patterns_match_solid:
  "(\<forall>i\<in>set xs. lower (pattern i) = ''solid'') \<Longrightarrow> do_patterns_match xs"
proof -
  have "(\<forall>i\<in>set xs. lower (pattern i) = ''solid'') \<Longrightarrow>
      foldl (\<lambda>n i. if lower (pattern i) \<noteq> ''solid'' then n + 1 else n) k xs = k" for k :: nat
    by (induction xs arbitrary: k) simp_all
  then show "(\<forall>i\<in>set xs. lower (pattern i) = ''solid'') \<Longrightarrow> do_patterns_match xs"
    by (simp add: do_patterns_match_def patterned_items_count_def)
qed

lemma category_matches_names:
  "category_matches ''top'' x \<longleftrightarrow> lower (category x) = ''top''"
  "category_matches ''bottom'' x \<longleftrightarrow> lower (category x) = ''bottom''"
  "category_matches ''dress'' x \<longleftrightarrow> lower (category x) = ''dress''"
  "category_matches ''accessories'' x \<longleftrightarrow>
     lower (category x) = ''accessories'' \<or> lower (category x) = ''accessory''"
  using category_matches_iff [of "Main Slot_top" x] category_matches_iff [of "Main Slot_bottom" x]
    category_matches_iff [of "Main Slot_dress" x] category_matches_iff [of Accessories x]
  by simp_all

lemmas ex_eval = is_compatible_candidate_iff category_matches_names ex_lower_category suitable_Any
  proposed_outfit_items_def inner_pair_loop_iff pair_compatible_black ex_fields ex_fields2
  ex_ranks ex_ranks2 do_patterns_match_solid ex_solid

lemma ex_compatible_dresses:
  "compatible_items [ex_top, ex_bottom, ex_dress, ex_gown] ''Any'' ex_dress_outfit (Main Slot_dress)
     = [ex_dress, ex_gown]"
  by (simp add: compatible_items_def occasion_Any ex_dress_outfit_def ex_eval)

lemma ex_compatible_tops:
  "compatible_items [ex_top, ex_bottom, ex_dress, ex_gown] ''Any'' ex_dress_outfit (Main Slot_top)
     = [ex_top]"
  by (simp add: compatible_items_def occasion_Any ex_dress_outfit_def ex_eval)

lemma ex_compatible_bottoms:
  "compatible_items [ex_top, ex_bottom, ex_dress, ex_gown] ''Any'' ex_dress_outfit (Main Slot_bottom)
     = [ex_bottom]"
  by (simp add: compatible_items_def occasion_Any ex_dress_outfit_def ex_eval)

lemma ex_compatible_accessories:
  "compatible_items [ex_top, ex_bottom, ex_scarf, ex_hat] ''Any'' ex_outfit Accessories
     = [ex_scarf, ex_hat]"
  by (simp add: compatible_items_def occasion_Any ex_outfit_def ex_eval)

lemma ex_hat_accepted: "is_compatible_candidate ex_outfit Accessories 0 ex_hat"
  by (simp add: ex_outfit_def ex_eval)

lemma ex_shoes_rejected: "\<not> is_compatible_candidate ex_outfit (Main Slot_top) 0 ex_shoes"
  by (simp add: ex_eval)

section \<open>The claims about the assembler\<close>

text \<open>
  Claim C1, amended. On an empty catalog generation returns no outfit for every occasion
  label and every run of the random source. The entry point \<open>app_generate_outfit\<close> returns
  it before the first attempt (0 attempts spent). \<open>generate_outfit\<close> itself has no exit
  for an empty catalog: each attempt finds no dress, no top and no bottom and ends in the
  \<^verbatim>\<open>continue\<close> of line 384, so it returns no outfit only after all \<open>max_attempts\<close>
  attempts are spent.
\<close>

theorem empty_catalog_returns_absent:
  "app_generate_outfit [] occasion r = (None, 0)
 \<and> generate_outfit (OutfitGenerator []) occasion r = (None, max_attempts)"
proof -
  have "\<forall>r. fst (attempt (OutfitGenerator []) lvl r) = Continue" for lvl
    by (simp add: attempt_empty)
  then have "generate_loop (OutfitGenerator []) lvl 0 r = (None, max_attempts)" for lvl
    using generate_loop_all_Continue [of "OutfitGenerator []" lvl 0 r] by simp
  then show ?thesis
    by (simp add: app_generate_outfit_def generate_outfit_def)
qed

text \<open>
  The claim C1 as stated, for generation itself, fails: on the empty catalog
  \<open>generate_outfit\<close> spends the whole budget of 1000 attempts before it returns no outfit.
\<close>

theorem empty_catalog_exhausts_budget_counterexample:
  "generate_outfit (OutfitGenerator []) ''Any'' (sconst 0) = (None, 1000)
 \<and> max_attempts = 1000"
  using generate_outfit_empty_exhausts [of "''Any''" "sconst 0"]
  by (simp add: max_attempts_def)

text \<open>
  Claim C5. With a catalog of exactly one red top and one green bottom, in either order,
  generation returns no outfit for every occasion label and every run of the random
  source: each of the 1000 attempts ends in \<^verbatim>\<open>continue\<close>.
\<close>

theorem clashing_pair_never_generates:
  assumes "category t = ''Top''" and "category b = ''Bottom''"
    and "lower (color t) = ''red''" and "lower (color b) = ''green''"
    and "clothing_items = [t, b] \<or> clothing_items = [b, t]"
  shows "generate_outfit (OutfitGenerator clothing_items) occasion r = (None, max_attempts)
       \<and> app_generate_outfit clothing_items occasion r = (None, max_attempts)"
proof -
  let ?cats = "\<lparr>cat_Top = [t], cat_Bottom = [b], cat_Dress = [], cat_Outerwear = [],
      cat_Accessory = [], cat_Shoes = []\<rparr>"
  have cats: "OutfitGenerator clothing_items = ?cats"
    using assms(1,2,5) by (rule OutfitGenerator_top_bottom)
  have "\<forall>lvl r. fst (attempt ?cats lvl r) = Continue"
    using red_green_clash [OF assms(3,4)] by (simp add: attempt_clashing_pair)
  then have "generate_loop ?cats lvl 0 r = (None, max_attempts)" for lvl
    using generate_loop_all_Continue [of ?cats lvl 0 r] by simp
  then have "generate_outfit ?cats occasion r = (None, max_attempts)"
    by (simp add: generate_outfit_def)
  with cats assms(5) show ?thesis
    by (auto simp: app_generate_outfit_def)
qed

theorem clashing_pair_never_generates_witness:
  "category ex_red_top = ''Top'' \<and> category ex_green_bottom = ''Bottom''
 \<and> lower (color ex_red_top) = ''red'' \<and> lower (color ex_green_bottom) = ''green''
 \<and> generate_outfit (OutfitGenerator [ex_red_top, ex_green_bottom]) ''Party'' (sconst 0)
     = (None, max_attempts)
 \<and> app_generate_outfit [ex_red_top, ex_green_bottom] ''Party'' (sconst 0) = (None, max_attempts)"
proof -
  have h: "category ex_red_top = ''Top''" "category ex_green_bottom = ''Bottom''"
    "lower (color ex_red_top) = ''red''" "lower (color ex_green_bottom) = ''green''"
    by (simp_all add: ex_red_top_def ex_green_bottom_def lower_def char_lower_def)
  from clashing_pair_never_generates [OF h, of "[ex_red_top, ex_green_bottom]" "''Party''" "sconst 0"] h
  show ?thesis by simp
qed

text \<open>
  Claim C2, amended. With a catalog of exactly one black casual top and one black casual
  bottom, in either order, of which at least one has the pattern solid (compared in lower
  case), generation for the occasion \<^verbatim>\<open>Any\<close> returns, at its first attempt, the outfit made
  of that top and that bottom, with no dress, no outerwear, no shoes and no accessory.
\<close>

theorem black_pair_generates:
  assumes "category t = ''Top''" and "category b = ''Bottom''"
    and "lower (color t) = ''black''" and "lower (color b) = ''black''"
    and "lower (formality t) = ''casual''" and "lower (formality b) = ''casual''"
    and "clothing_items = [t, b] \<or> clothing_items = [b, t]"
    and "lower (pattern t) = ''solid'' \<or> lower (pattern b) = ''solid''"
  shows "generate_outfit (OutfitGenerator clothing_items) ''Any'' r =
           (Some \<lparr>top_slot = Some t, bottom_slot = Some b, dress_slot = None,
              outerwear_slot = None, accessories_slot = [], shoes_slot = None\<rparr>, 1)
       \<and> app_generate_outfit clothing_items ''Any'' r =
           (Some \<lparr>top_slot = Some t, bottom_slot = Some b, dress_slot = None,
              outerwear_slot = None, accessories_slot = [], shoes_slot = None\<rparr>, 1)"
  using generate_black_pair [OF assms(1-7), of r] assms(7,8)
  by (auto simp: app_generate_outfit_def)

theorem black_pair_generates_witness:
  "category ex_striped_top = ''Top'' \<and> category ex_bottom = ''Bottom''
 \<and> lower (color ex_striped_top) = ''black'' \<and> lower (color ex_bottom) = ''black''
 \<and> lower (formality ex_striped_top) = ''casual'' \<and> lower (formality ex_bottom) = ''casual''
 \<and> lower (pattern ex_bottom) = ''solid''
 \<and> generate_outfit (OutfitGenerator [ex_bottom, ex_striped_top]) ''Any'' (sconst 0) =
      (Some \<lparr>top_slot = Some ex_striped_top, bottom_slot = Some ex_bottom, dress_slot = None,
         outerwear_slot = None, accessories_slot = [], shoes_slot = None\<rparr>, 1)"
proof -
  have h: "category ex_striped_top = ''Top''" "category ex_bottom = ''Bottom''"
    "lower (color ex_striped_top) = ''black''" "lower (color ex_bottom) = ''black''"
    "lower (formality ex_striped_top) = ''casual''" "lower (formality ex_bottom) = ''casual''"
    by (simp_all add: ex_striped_top_def ex_bottom_def lower_def char_lower_def)
  have o: "[ex_bottom, ex_striped_top] = [ex_striped_top, ex_bottom]
      \<or> [ex_bottom, ex_striped_top] = [ex_bottom, ex_striped_top]"
    by simp
  have p: "lower (pattern ex_bottom) = ''solid''"
    by (simp add: ex_bottom_def lower_def char_lower_def)
  then have "lower (pattern ex_striped_top) = ''solid'' \<or> lower (pattern ex_bottom) = ''solid''"
    by simp
  from black_pair_generates [OF h o this, of "sconst 0"] h p
  show ?thesis by simp
qed

text \<open>
  The claim C2 as stated, for every pair of patterns, fails: a striped black casual top and
  a floral black casual bottom never pass the pattern check, and all 1000 attempts are
  spent without a result.
\<close>

theorem black_pair_both_patterned_counterexample:
  "category ex_striped_top = ''Top'' \<and> category ex_floral_bottom = ''Bottom''
 \<and> color ex_striped_top = ''black'' \<and> color ex_floral_bottom = ''black''
 \<and> formality ex_striped_top = ''casual'' \<and> formality ex_floral_bottom = ''casual''
 \<and> generate_outfit (OutfitGenerator [ex_striped_top, ex_floral_bottom]) ''Any'' (sconst 0)
      = (None, 1000)"
proof -
  have h: "category ex_striped_top = ''Top''" "category ex_floral_bottom = ''Bottom''"
    "lower (color ex_striped_top) = ''black''" "lower (color ex_floral_bottom) = ''black''"
    "lower (formality ex_striped_top) = ''casual''"
    "lower (formality ex_floral_bottom) = ''casual''"
    by (simp_all add: ex_striped_top_def ex_floral_bottom_def lower_def char_lower_def)
  have p: "lower (pattern ex_striped_top) \<noteq> ''solid''"
    "lower (pattern ex_floral_bottom) \<noteq> ''solid''"
    by (simp_all add: ex_striped_top_def ex_floral_bottom_def lower_def char_lower_def)
  have "[ex_striped_top, ex_floral_bottom] = [ex_striped_top, ex_floral_bottom]
      \<or> [ex_striped_top, ex_floral_bottom] = [ex_floral_bottom, ex_striped_top]"
    by simp
  from generate_black_pair [OF h this, of "sconst 0"] p
  have "generate_outfit (OutfitGenerator [ex_striped_top, ex_floral_bottom]) ''Any'' (sconst 0)
      = (None, 1000)"
    by (simp add: max_attempts_def)
  then show ?thesis
    by (simp add: ex_striped_top_def ex_floral_bottom_def)
qed

text \<open>
  Claim C6. Every outfit that generation returns has a dress, or both a top and a bottom;
  it never has exactly one of top and bottom; and a top and a bottom that are both present
  match in formality within tolerance 1 and do not clash in color.
\<close>

theorem generated_outfit_anchor:
  assumes "generate_outfit cats occasion r = (Some out, n)"
  shows "(dress_slot out \<noteq> None \<or> (top_slot out \<noteq> None \<and> bottom_slot out \<noteq> None))
       \<and> (top_slot out = None \<longleftrightarrow> bottom_slot out = None)
       \<and> (\<forall>t b. top_slot out = Some t \<and> bottom_slot out = Some b \<longrightarrow>
             do_formalities_match (Some t) (Some b) 1
           \<and> \<not> do_colors_clash (color t) (color b))"
proof -
  from assms have "result_ok out"
    unfolding generate_outfit_def by (rule generate_loop_result)
  then have "anchor_ok out" by (simp add: result_ok_def)
  then show ?thesis
    unfolding anchor_ok_def by blast
qed

theorem generated_outfit_anchor_witness:
  "generate_outfit (OutfitGenerator [ex_top, ex_bottom, ex_scarf, ex_hat]) ''Any''
      (0 ## 0 ## 2 ## 0 ## 3 ## sconst 0) = (Some ex_generated, 1)
 \<and> top_slot ex_generated = Some ex_top \<and> bottom_slot ex_generated = Some ex_bottom
 \<and> do_formalities_match (Some ex_top) (Some ex_bottom) 1
 \<and> \<not> do_colors_clash (color ex_top) (color ex_bottom)"
  using generated_outfit_anchor [OF ex_generate] ex_generate
  by (simp add: ex_generated_def)

text \<open>
  Claim C9. In every outfit that generation returns, there are at most 3 accessories and
  their ids are pairwise different.
\<close>

theorem generated_accessories_bounded_distinct:
  assumes "generate_outfit cats occasion r = (Some out, n)"
  shows "length (accessories_slot out) \<le> 3 \<and> distinct (map item_id (accessories_slot out))"
proof -
  from assms have "result_ok out"
    unfolding generate_outfit_def by (rule generate_loop_result)
  then show ?thesis by (simp add: result_ok_def)
qed

theorem generated_accessories_bounded_distinct_witness:
  "generate_outfit (OutfitGenerator [ex_top, ex_bottom, ex_scarf, ex_hat]) ''Any''
      (0 ## 0 ## 2 ## 0 ## 3 ## sconst 0) = (Some ex_generated, 1)
 \<and> accessories_slot ex_generated = [ex_scarf, ex_hat]
 \<and> length (accessories_slot ex_generated) \<le> 3
 \<and> distinct (map item_id (accessories_slot ex_generated))"
  using generated_accessories_bounded_distinct [OF ex_generate] ex_generate
  by (simp add: ex_generated_def)

section \<open>The claims about substitution\<close>

text \<open>
  Claim C3, amended. A candidate is accepted for a slot if and only if its category matches
  the slot (\<open>category_matches\<close>) and the three checks pass on the hypothetical item list
  \<open>H\<close>, the items of the current outfit with the candidate written into the slot (for the
  accessories slot, with the accessory list replaced by the candidate alone): the
  candidate is suitable for the occasion level, every pair \<open>i < j\<close> of \<open>H\<close> neither clashes
  nor differs in formality by more than 1, and \<open>H\<close> passes the pattern rule.
\<close>

theorem replacement_accepted_iff:
  assumes "H = proposed_outfit_items (current_outfit_copy g s c)"
  shows "is_compatible_candidate g s lvl c \<longleftrightarrow>
     category_matches (slot_name s) c
   \<and> is_item_suitable_for_occasion c lvl
   \<and> (\<forall>i j. i < j \<and> j < length H \<longrightarrow>
         \<not> do_colors_clash (color (H ! i)) (color (H ! j))
       \<and> do_formalities_match (Some (H ! i)) (Some (H ! j)) 1)
   \<and> do_patterns_match H"
  unfolding is_compatible_candidate_iff assms [symmetric] outer_pair_loop_nth pair_compatible_def
  by (rule refl)

theorem replacement_accepted_iff_witness:
  "[ex_top, ex_bottom, ex_hat] = proposed_outfit_items (current_outfit_copy ex_outfit Accessories ex_hat)
 \<and> is_compatible_candidate ex_outfit Accessories 0 ex_hat
 \<and> category_matches (slot_name Accessories) ex_hat
 \<and> is_item_suitable_for_occasion ex_hat 0
 \<and> do_patterns_match [ex_top, ex_bottom, ex_hat]"
proof -
  have h: "[ex_top, ex_bottom, ex_hat] =
      proposed_outfit_items (current_outfit_copy ex_outfit Accessories ex_hat)"
    by (simp add: ex_outfit_def proposed_outfit_items_def)
  from replacement_accepted_iff [OF h, of 0] ex_hat_accepted h
  show ?thesis by simp
qed

text \<open>
  The claim C3 as stated, with the three checks alone, fails: for the slot \<^verbatim>\<open>top\<close> of an
  outfit of a black top and a black bottom, a pair of black casual solid shoes passes the
  three checks on the hypothetical list and is not accepted, its category being
  \<^verbatim>\<open>Shoes\<close>.
\<close>

theorem replacement_checks_not_sufficient_counterexample:
  "proposed_outfit_items (current_outfit_copy ex_outfit (Main Slot_top) ex_shoes)
     = [ex_shoes, ex_bottom]
 \<and> is_item_suitable_for_occasion ex_shoes 0
 \<and> \<not> do_colors_clash (color ex_shoes) (color ex_bottom)
 \<and> do_formalities_match (Some ex_shoes) (Some ex_bottom) 1
 \<and> do_patterns_match [ex_shoes, ex_bottom]
 \<and> \<not> is_compatible_candidate ex_outfit (Main Slot_top) 0 ex_shoes"
proof -
  have "pair_compatible ex_shoes ex_bottom"
    by (simp add: pair_compatible_black ex_fields2 ex_ranks ex_ranks2)
  then show ?thesis
    using ex_shoes_rejected
    by (simp add: ex_outfit_def proposed_outfit_items_def suitable_Any pair_compatible_def
        do_patterns_match_solid ex_solid)
qed

text \<open>
  Claim C4. No outfit that generation returns has a dress together with a top or a bottom.
  Applying an accepted dress replacement sets the dress and clears top and bottom; applying
  an accepted top or bottom replacement while a dress is set sets that slot and clears the
  dress; and every run of the change dialog, whatever the slot and whether or not an item
  is applied, keeps an outfit free of a dress together with a top or a bottom.
\<close>

theorem torso_exclusivity_maintained:
  "(generate_outfit cats occasion r = (Some out, n) \<longrightarrow>
      \<not> (dress_slot out \<noteq> None \<and> top_slot out \<noteq> None) \<and> torso_exclusive out)
 \<and> (find (\<lambda>i. item_id i = sid_d)
        (compatible_items clothing_items occ g (Main Slot_dress)) = Some c_d \<longrightarrow>
      (let g' = open_change_item_dialog clothing_items occ g (Main Slot_dress) (Some sid_d)
       in dress_slot g' = Some c_d \<and> top_slot g' = None \<and> bottom_slot g' = None))
 \<and> (dress_slot g \<noteq> None
      \<and> find (\<lambda>i. item_id i = sid_t)
          (compatible_items clothing_items occ g (Main Slot_top)) = Some c_t \<longrightarrow>
      (let g' = open_change_item_dialog clothing_items occ g (Main Slot_top) (Some sid_t)
       in top_slot g' = Some c_t \<and> dress_slot g' = None))
 \<and> (dress_slot g \<noteq> None
      \<and> find (\<lambda>i. item_id i = sid_b)
          (compatible_items clothing_items occ g (Main Slot_bottom)) = Some c_b \<longrightarrow>
      (let g' = open_change_item_dialog clothing_items occ g (Main Slot_bottom) (Some sid_b)
       in bottom_slot g' = Some c_b \<and> dress_slot g' = None))
 \<and> (torso_exclusive g \<longrightarrow>
      torso_exclusive (open_change_item_dialog clothing_items occ g s selected_id))"
proof -
  have gen: "generate_outfit cats occasion r = (Some out, n) \<longrightarrow>
      \<not> (dress_slot out \<noteq> None \<and> top_slot out \<noteq> None) \<and> torso_exclusive out"
    using generate_loop_result [of cats _ 0 r out n]
    by (auto simp: generate_outfit_def result_ok_def anchor_ok_def torso_exclusive_def)
  show ?thesis
    using gen select_item_torso_exclusive
    by (simp add: open_change_item_dialog_def select_item_def Let_def)
qed

theorem torso_exclusivity_maintained_witness:
  "generate_outfit (OutfitGenerator [ex_top, ex_bottom, ex_scarf, ex_hat]) ''Any''
      (0 ## 0 ## 2 ## 0 ## 3 ## sconst 0) = (Some ex_generated, 1)
 \<and> torso_exclusive ex_generated
 \<and> find (\<lambda>i. item_id i = 8)
      (compatible_items [ex_top, ex_bottom, ex_dress, ex_gown] ''Any'' ex_dress_outfit
         (Main Slot_dress)) = Some ex_gown
 \<and> open_change_item_dialog [ex_top, ex_bottom, ex_dress, ex_gown] ''Any'' ex_dress_outfit
      (Main Slot_dress) (Some 8) = ex_dress_outfit\<lparr>dress_slot := Some ex_gown\<rparr>
 \<and> dress_slot ex_dress_outfit \<noteq> None
 \<and> find (\<lambda>i. item_id i = 1)
      (compatible_items [ex_top, ex_bottom, ex_dress, ex_gown] ''Any'' ex_dress_outfit
         (Main Slot_top)) = Some ex_top
 \<and> open_change_item_dialog [ex_top, ex_bottom, ex_dress, ex_gown] ''Any'' ex_dress_outfit
      (Main Slot_top) (Some 1) = ex_dress_outfit\<lparr>top_slot := Some ex_top, dress_slot := None\<rparr>
 \<and> find (\<lambda>i. item_id i = 2)
      (compatible_items [ex_top, ex_bottom, ex_dress, ex_gown] ''Any'' ex_dress_outfit
         (Main Slot_bottom)) = Some ex_bottom
 \<and> open_change_item_dialog [ex_top, ex_bottom, ex_dress, ex_gown] ''Any'' ex_dress_outfit
      (Main Slot_bottom) (Some 2) = ex_dress_outfit\<lparr>bottom_slot := Some ex_bottom, dress_slot := None\<rparr>
 \<and> torso_exclusive ex_dress_outfit
 \<and> torso_exclusive (open_change_item_dialog [ex_top, ex_bottom, ex_dress, ex_gown] ''Any''
      ex_dress_outfit (Main Slot_top) (Some 1))"
proof -
  let ?W = "[ex_top, ex_bottom, ex_dress, ex_gown]"
  have fd: "find (\<lambda>i. item_id i = 8) (compatible_items ?W ''Any'' ex_dress_outfit (Main Slot_dress))
      = Some ex_gown"
    by (simp add: ex_compatible_dresses ex_fields2)
  have ft: "find (\<lambda>i. item_id i = 1) (compatible_items ?W ''Any'' ex_dress_outfit (Main Slot_top))
      = Some ex_top"
    by (simp add: ex_compatible_tops ex_fields)
  have fb: "find (\<lambda>i. item_id i = 2) (compatible_items ?W ''Any'' ex_dress_outfit (Main Slot_bottom))
      = Some ex_bottom"
    by (simp add: ex_compatible_bottoms ex_fields)
  have d: "dress_slot ex_dress_outfit \<noteq> None" and e: "torso_exclusive ex_dress_outfit"
    by (simp_all add: ex_dress_outfit_def torso_exclusive_def)
  have od: "open_change_item_dialog ?W ''Any'' ex_dress_outfit (Main Slot_dress) (Some 8)
      = ex_dress_outfit\<lparr>dress_slot := Some ex_gown\<rparr>"
    by (simp add: open_change_item_dialog_def select_item_def fd, (simp add: ex_dress_outfit_def)?)
  have ot: "open_change_item_dialog ?W ''Any'' ex_dress_outfit (Main Slot_top) (Some 1)
      = ex_dress_outfit\<lparr>top_slot := Some ex_top, dress_slot := None\<rparr>"
    by (simp add: open_change_item_dialog_def select_item_def ft, (simp add: ex_dress_outfit_def)?)
  have ob: "open_change_item_dialog ?W ''Any'' ex_dress_outfit (Main Slot_bottom) (Some 2)
      = ex_dress_outfit\<lparr>bottom_slot := Some ex_bottom, dress_slot := None\<rparr>"
    by (simp add: open_change_item_dialog_def select_item_def fb, (simp add: ex_dress_outfit_def)?)
  from torso_exclusivity_maintained [where cats = "OutfitGenerator [ex_top, ex_bottom, ex_scarf, ex_hat]"
      and occasion = "''Any''" and r = "0 ## 0 ## 2 ## 0 ## 3 ## sconst 0" and out = ex_generated
      and n = 1 and sid_d = 8 and clothing_items = ?W and occ = "''Any''" and g = ex_dress_outfit
      and c_d = ex_gown and sid_t = 1 and c_t = ex_top and sid_b = 2 and c_b = ex_bottom
      and s = "Main Slot_top" and selected_id = "Some 1"]
  have "torso_exclusive ex_generated"
    and "torso_exclusive (open_change_item_dialog ?W ''Any'' ex_dress_outfit (Main Slot_top) (Some 1))"
    using ex_generate e by (simp_all add: ex_generated_def)
  with ex_generate fd ft fb d e od ot ob show ?thesis
    by (simp add: ex_generated_def)
qed

text \<open>
  Claim C10. An accepted candidate has a category that matches the slot: its category in
  lower case is the slot name, or the slot is \<^verbatim>\<open>accessories\<close> and its category in lower case
  is \<^verbatim>\<open>accessory\<close>; the same holds of the item that the dialog finds and applies; and for
  the accessories slot an accepted item whose category is one of the six category values
  has the category \<^verbatim>\<open>Accessory\<close>. The category is the first test of the loop body, so a
  candidate that fails it is rejected whatever the other checks say.
\<close>

theorem candidate_category_matches_slot:
  "(is_compatible_candidate g s lvl c \<longrightarrow>
      category_matches (slot_name s) c
    \<and> (lower (category c) = slot_name s \<or> (s = Accessories \<and> lower (category c) = ''accessory'')))
 \<and> (find (\<lambda>i. item_id i = sid) (compatible_items clothing_items occ g s) = Some c' \<longrightarrow>
      lower (category c') = slot_name s \<or> (s = Accessories \<and> lower (category c') = ''accessory''))
 \<and> (is_compatible_candidate g Accessories lvl a \<and> category a \<in> set category_values \<longrightarrow>
      category a = ''Accessory'')"
proof -
  have 1: "is_compatible_candidate g s lvl c \<Longrightarrow> category_matches (slot_name s) c" for g s lvl c
    by (simp add: is_compatible_candidate_iff)
  have 2: "find (\<lambda>i. item_id i = sid) (compatible_items clothing_items occ g s) = Some c' \<Longrightarrow>
      category_matches (slot_name s) c'"
    unfolding compatible_items_def by (drule find_in_filter) (auto dest: 1)
  have 3: "category a = ''Accessory''"
    if acc: "is_compatible_candidate g Accessories lvl a"
      and val: "category a \<in> set category_values"
  proof -
    from 1 [OF acc] have "lower (category a) = ''accessories'' \<or> lower (category a) = ''accessory''"
      unfolding category_matches_iff by auto
    with category_values_lower [OF val] have "lower (category a) = ''accessory''"
      by simp
    with val show ?thesis by (rule category_values_accessory)
  qed
  from 1 [of g s lvl c] 2 3 show ?thesis
    by (auto simp: category_matches_iff)
qed

theorem candidate_category_matches_slot_witness:
  "is_compatible_candidate ex_outfit Accessories 0 ex_hat
 \<and> find (\<lambda>i. item_id i = 11)
      (compatible_items [ex_top, ex_bottom, ex_scarf, ex_hat] ''Any'' ex_outfit Accessories)
     = Some ex_hat
 \<and> category ex_hat \<in> set category_values
 \<and> category_matches (slot_name Accessories) ex_hat
 \<and> lower (category ex_hat) = ''accessory''
 \<and> category ex_hat = ''Accessory''"
proof -
  have f: "find (\<lambda>i. item_id i = 11)
      (compatible_items [ex_top, ex_bottom, ex_scarf, ex_hat] ''Any'' ex_outfit Accessories)
     = Some ex_hat"
    by (simp add: ex_compatible_accessories ex_fields)
  have v: "category ex_hat \<in> set category_values"
    by (simp add: ex_hat_def category_values_def)
  from candidate_category_matches_slot [where g = ex_outfit and s = Accessories and lvl = 0
      and c = ex_hat and sid = 11 and clothing_items = "[ex_top, ex_bottom, ex_scarf, ex_hat]"
      and occ = "''Any''" and c' = ex_hat and a = ex_hat] ex_hat_accepted f v
  show ?thesis by (simp add: lower_def char_lower_def)
qed

end
